theory Spec2Isabelle
  imports Complex_Main "HOL-Library.Word" "HOL-Library.Multiset"
begin

text \<open>
  A shallow embedding of parts of ScaleLLM, an inference server for large language
  models: the gRPC chat handler, the model factory, the forward pass of the LLaMA model
  and the inverse frequencies of the rotary embedding, each translated from its C++
  source, followed by the scheduling core as the specification describes it. The
  definitions come first; the properties proved of them follow, section by section.
\<close>

section \<open>The chat handler (src/handlers/chat_handler.cpp)\<close>

subsection \<open>Data\<close>

text \<open>
  \<open>grpc::StatusCode\<close>, the status a call is finished with.
\<close>

datatype StatusCode =
  OK | CANCELLED | UNKNOWN | INVALID_ARGUMENT | DEADLINE_EXCEEDED | NOT_FOUND
  | ALREADY_EXISTS | PERMISSION_DENIED | RESOURCE_EXHAUSTED | FAILED_PRECONDITION
  | ABORTED | OUT_OF_RANGE | UNIMPLEMENTED | INTERNAL | UNAVAILABLE | DATA_LOSS
  | UNAUTHENTICATED

text \<open>
  \<open>llm::Message(role, content)\<close>, one entry of the conversation handed to the scheduler.
\<close>

record Message =
  msg_role :: string
  msg_content :: string

text \<open>
  \<open>proto::ChatRequest\<close>. A field the handler tests with \<open>has_x()\<close> is an option;
  the two repeated fields are lists. Field names carry the prefix \<open>req_\<close>.
\<close>

record ChatRequest =
  req_model :: string
  req_messages :: "Message list"
  req_stream :: bool
  req_priority :: nat
  req_max_tokens :: "nat option"
  req_n :: "nat option"
  req_frequency_penalty :: "real option"
  req_presence_penalty :: "real option"
  req_repetition_penalty :: "real option"
  req_temperature :: "real option"
  req_top_p :: "real option"
  req_top_k :: "int option"
  req_skip_special_tokens :: "bool option"
  req_ignore_eos :: "bool option"
  req_stop :: "string list"
  req_stop_token_ids :: "int list"

text \<open>
  \<open>SamplingParams\<close> (handlers/sampling_params.h): the fields the handler assigns.
  Field names carry the prefix \<open>sp_\<close>.
\<close>

record SamplingParams =
  sp_max_tokens :: nat
  sp_n :: nat
  sp_frequency_penalty :: real
  sp_presence_penalty :: real
  sp_repetition_penalty :: real
  sp_temperature :: real
  sp_top_p :: real
  sp_top_k :: int
  sp_skip_special_tokens :: bool
  sp_ignore_eos :: bool
  sp_stop :: "string list"
  sp_stop_token_ids :: "int list"

text \<open>
  \<open>SequenceOutput\<close>, \<open>Usage\<close>, \<open>Status\<close> and \<open>RequestOutput\<close>: what the scheduler hands
  to the callback. Of a \<open>Status\<close> the callback reads \<open>ok()\<close>, the gRPC code that
  \<open>to_grpc_status_code(code())\<close> gives, and \<open>message()\<close>.
\<close>

record SequenceOutput =
  so_index :: nat
  so_text :: string
  so_finish_reason :: "string option"

record Usage =
  num_prompt_tokens :: nat
  num_generated_tokens :: nat
  num_total_tokens :: nat

record Status =
  st_ok :: bool
  st_grpc_code :: StatusCode
  st_message :: string

record RequestOutput =
  ro_outputs :: "SequenceOutput list"
  ro_status :: "Status option"
  ro_usage :: "Usage option"
  ro_finished :: bool

text \<open>
  \<open>proto::ChatResponse\<close> with its choices. A field is \<open>Some\<close> exactly when the handler
  called its setter (\<open>mutable_delta\<close>, \<open>set_role\<close>, \<open>set_content\<close>, \<open>set_finish_reason\<close>,
  \<open>mutable_usage\<close>).
\<close>

record ChatMessage =
  cm_role :: "string option"
  cm_content :: "string option"

record Choice =
  ch_index :: nat
  ch_delta :: "ChatMessage option"
  ch_message :: "ChatMessage option"
  ch_finish_reason :: "string option"

record ProtoUsage =
  prompt_tokens :: "32 word"
  completion_tokens :: "32 word"
  total_tokens :: "32 word"

record ChatResponse =
  resp_object :: string
  resp_id :: string
  resp_created :: int
  resp_model :: string
  resp_choices :: "Choice list"
  resp_usage :: "ProtoUsage option"

text \<open>
  \<open>ChatCallData\<close>: the request of the call, the responses the transport accepted so far
  (\<open>cd_written\<close>), the status the handler finished the call with (\<open>cd_finish\<close>) and the
  number of transport operations issued so far (\<open>cd_ops\<close>).
\<close>

record ChatCallData =
  cd_request :: ChatRequest
  cd_written :: "ChatResponse list"
  cd_finish :: "(StatusCode \<times> string) option"
  cd_ops :: nat

subsection \<open>The transport\<close>

text \<open>
  Modelled from the spec: \<open>ChatCallData::write\<close>, \<open>write_and_finish\<close> and
  \<open>finish_with_error\<close> (call_data.h) are not among the sources. Each is one transport
  operation whose boolean result the handler reads (the sink "signals back-pressure via
  its return value"). The result of the \<open>k\<close>-th operation is \<open>ok k\<close>, for an arbitrary
  \<open>ok\<close>; a response counts as delivered when its write returned true.
\<close>

definition write_response :: "(nat \<Rightarrow> bool) \<Rightarrow> ChatCallData \<Rightarrow> ChatResponse \<Rightarrow> bool \<times> ChatCallData" where
  "write_response ok cd r =
     (ok (cd_ops cd),
      cd\<lparr>cd_written := (if ok (cd_ops cd) then cd_written cd @ [r] else cd_written cd),
         cd_ops := Suc (cd_ops cd)\<rparr>)"

text \<open>
  Modelled from the spec: \<open>ChatCallData::write_and_finish\<close> (call_data.h, not among the
  sources): a write that also finishes the call with the status \<open>OK\<close>.
\<close>

definition write_and_finish ::
  "(nat \<Rightarrow> bool) \<Rightarrow> ChatCallData \<Rightarrow> ChatResponse \<Rightarrow> bool \<times> ChatCallData" where
  "write_and_finish ok cd r =
     (ok (cd_ops cd),
      cd\<lparr>cd_written := (if ok (cd_ops cd) then cd_written cd @ [r] else cd_written cd),
         cd_finish := Some (OK, []),
         cd_ops := Suc (cd_ops cd)\<rparr>)"

text \<open>
  Modelled from the spec: \<open>ChatCallData::finish_with_error\<close> (call_data.h, not among the
  sources): the call is finished with the given status and message.
\<close>

definition finish_with_error ::
  "(nat \<Rightarrow> bool) \<Rightarrow> ChatCallData \<Rightarrow> StatusCode \<Rightarrow> string \<Rightarrow> bool \<times> ChatCallData" where
  "finish_with_error ok cd code msg =
     (ok (cd_ops cd), cd\<lparr>cd_finish := Some (code, msg), cd_ops := Suc (cd_ops cd)\<rparr>)"

subsection \<open>Streaming deltas: \<open>send_delta_to_client\<close>\<close>

text \<open>The three chunks the loop body builds for one sequence output.\<close>

definition role_chunk :: "string \<Rightarrow> int \<Rightarrow> string \<Rightarrow> nat \<Rightarrow> ChatResponse" where
  "role_chunk request_id created_time model i =
     \<lparr>resp_object = ''chat.completion.chunk'', resp_id = request_id,
      resp_created = created_time, resp_model = model,
      resp_choices =
        [\<lparr>ch_index = i,
          ch_delta = Some \<lparr>cm_role = Some ''assistant'', cm_content = Some []\<rparr>,
          ch_message = None, ch_finish_reason = None\<rparr>],
      resp_usage = None\<rparr>"

definition text_chunk :: "string \<Rightarrow> int \<Rightarrow> string \<Rightarrow> nat \<Rightarrow> string \<Rightarrow> ChatResponse" where
  "text_chunk request_id created_time model i txt =
     \<lparr>resp_object = ''chat.completion.chunk'', resp_id = request_id,
      resp_created = created_time, resp_model = model,
      resp_choices =
        [\<lparr>ch_index = i,
          ch_delta = Some \<lparr>cm_role = None, cm_content = Some txt\<rparr>,
          ch_message = None, ch_finish_reason = None\<rparr>],
      resp_usage = None\<rparr>"

definition finish_chunk :: "string \<Rightarrow> int \<Rightarrow> string \<Rightarrow> nat \<Rightarrow> string \<Rightarrow> ChatResponse" where
  "finish_chunk request_id created_time model i reason =
     \<lparr>resp_object = ''chat.completion.chunk'', resp_id = request_id,
      resp_created = created_time, resp_model = model,
      resp_choices =
        [\<lparr>ch_index = i, ch_delta = None, ch_message = None,
          ch_finish_reason = Some reason\<rparr>],
      resp_usage = None\<rparr>"

text \<open>
  The body of the loop for one \<open>seq_output\<close>: the role message when the index is not yet
  in \<open>first_message_sent\<close> (the index is inserted before the write), the text when it
  is not empty, the finish reason when there is one. A write that returns false ends
  the function with false.
\<close>

definition send_seq_delta ::
  "(nat \<Rightarrow> bool) \<Rightarrow> string \<Rightarrow> int \<Rightarrow> string \<Rightarrow> ChatCallData \<times> nat set \<Rightarrow> SequenceOutput
     \<Rightarrow> bool \<times> ChatCallData \<times> nat set" where
  "send_seq_delta ok request_id created_time model st seq_output =
     (let cd = fst st; first_message_sent = snd st; i = so_index seq_output;
          r1 = (if i \<notin> first_message_sent
                then write_response ok cd (role_chunk request_id created_time model i)
                else (True, cd));
          fms = (if i \<notin> first_message_sent then insert i first_message_sent
                 else first_message_sent)
      in if \<not> fst r1 then (False, snd r1, fms)
         else
           let r2 = (if so_text seq_output \<noteq> []
                     then write_response ok (snd r1)
                            (text_chunk request_id created_time model i (so_text seq_output))
                     else (True, snd r1))
           in if \<not> fst r2 then (False, snd r2, fms)
              else
                let r3 = (case so_finish_reason seq_output of
                            Some reason \<Rightarrow>
                              write_response ok (snd r2)
                                (finish_chunk request_id created_time model i reason)
                          | None \<Rightarrow> (True, snd r2))
                in if \<not> fst r3 then (False, snd r3, fms) else (True, snd r3, fms))"

fun send_delta_loop ::
  "(nat \<Rightarrow> bool) \<Rightarrow> string \<Rightarrow> int \<Rightarrow> string \<Rightarrow> ChatCallData \<times> nat set \<Rightarrow> SequenceOutput list
     \<Rightarrow> bool \<times> ChatCallData \<times> nat set" where
  "send_delta_loop ok request_id created_time model st [] = (True, st)"
| "send_delta_loop ok request_id created_time model st (seq_output # rest) =
     (case send_seq_delta ok request_id created_time model st seq_output of
        (False, st') \<Rightarrow> (False, st')
      | (True, st') \<Rightarrow> send_delta_loop ok request_id created_time model st' rest)"

definition send_delta_to_client ::
  "(nat \<Rightarrow> bool) \<Rightarrow> ChatCallData \<Rightarrow> nat set \<Rightarrow> string \<Rightarrow> int \<Rightarrow> string \<Rightarrow> RequestOutput
     \<Rightarrow> bool \<times> ChatCallData \<times> nat set" where
  "send_delta_to_client ok call_data first_message_sent request_id created_time model output =
     send_delta_loop ok request_id created_time model (call_data, first_message_sent)
       (ro_outputs output)"

subsection \<open>The final result: \<open>send_result_to_client\<close>\<close>

definition result_choice :: "SequenceOutput \<Rightarrow> Choice" where
  "result_choice output =
     \<lparr>ch_index = so_index output, ch_delta = None,
      ch_message = Some \<lparr>cm_role = Some ''assistant'', cm_content = Some (so_text output)\<rparr>,
      ch_finish_reason = so_finish_reason output\<rparr>"

definition proto_usage :: "Usage \<Rightarrow> ProtoUsage" where
  "proto_usage u =
     \<lparr>prompt_tokens = of_nat (num_prompt_tokens u),
      completion_tokens = of_nat (num_generated_tokens u),
      total_tokens = of_nat (num_total_tokens u)\<rparr>"

definition send_result_to_client ::
  "(nat \<Rightarrow> bool) \<Rightarrow> ChatCallData \<Rightarrow> string \<Rightarrow> int \<Rightarrow> string \<Rightarrow> RequestOutput
     \<Rightarrow> bool \<times> ChatCallData" where
  "send_result_to_client ok call_data request_id created_time model req_output =
     write_and_finish ok call_data
       \<lparr>resp_object = ''chat.completion'', resp_id = request_id,
        resp_created = created_time, resp_model = model,
        resp_choices = map result_choice (ro_outputs req_output),
        resp_usage = map_option proto_usage (ro_usage req_output)\<rparr>"

subsection \<open>\<open>grpc_request_to_sampling_params\<close>\<close>

text \<open>
  The defaults of \<open>SamplingParams\<close> are declared in a header that is not among the
  sources; they are the parameter \<open>sp0\<close>.
\<close>

definition set_if :: "'b option \<Rightarrow> ('b \<Rightarrow> 'a \<Rightarrow> 'a) \<Rightarrow> 'a \<Rightarrow> 'a" where
  "set_if v upd s = (case v of Some x \<Rightarrow> upd x s | None \<Rightarrow> s)"

definition grpc_request_to_sampling_params :: "SamplingParams \<Rightarrow> ChatRequest \<Rightarrow> SamplingParams" where
  "grpc_request_to_sampling_params sp0 request =
     (let s1 = set_if (req_max_tokens request) (\<lambda>v s. s\<lparr>sp_max_tokens := v\<rparr>) sp0;
          s2 = set_if (req_n request) (\<lambda>v s. s\<lparr>sp_n := v\<rparr>) s1;
          s3 = set_if (req_frequency_penalty request) (\<lambda>v s. s\<lparr>sp_frequency_penalty := v\<rparr>) s2;
          s4 = set_if (req_presence_penalty request) (\<lambda>v s. s\<lparr>sp_presence_penalty := v\<rparr>) s3;
          s5 = set_if (req_repetition_penalty request) (\<lambda>v s. s\<lparr>sp_repetition_penalty := v\<rparr>) s4;
          s6 = set_if (req_temperature request) (\<lambda>v s. s\<lparr>sp_temperature := v\<rparr>) s5;
          s7 = set_if (req_top_p request) (\<lambda>v s. s\<lparr>sp_top_p := v\<rparr>) s6;
          s8 = set_if (req_top_k request) (\<lambda>v s. s\<lparr>sp_top_k := v\<rparr>) s7;
          s9 = set_if (req_skip_special_tokens request) (\<lambda>v s. s\<lparr>sp_skip_special_tokens := v\<rparr>) s8;
          s10 = set_if (req_ignore_eos request) (\<lambda>v s. s\<lparr>sp_ignore_eos := v\<rparr>) s9;
          s11 = (if length (req_stop request) > 0 then s10\<lparr>sp_stop := req_stop request\<rparr> else s10);
          s12 = (if length (req_stop_token_ids request) > 0
                 then s11\<lparr>sp_stop_token_ids := req_stop_token_ids request\<rparr> else s11)
      in s12)"

subsection \<open>\<open>ChatHandler::chat_async\<close> and its callback\<close>

text \<open>
  The state the lambda captures: the model name, \<open>first_message_sent\<close> (empty at first),
  the request id and the creation time.
\<close>

record Callback =
  cb_model :: string
  cb_first_message_sent :: "nat set"
  cb_request_id :: string
  cb_created_time :: int

text \<open>One invocation of the lambda on a \<open>RequestOutput\<close>.\<close>

definition callback ::
  "(nat \<Rightarrow> bool) \<Rightarrow> ChatCallData \<times> Callback \<Rightarrow> RequestOutput \<Rightarrow> bool \<times> ChatCallData \<times> Callback" where
  "callback ok st req_output =
     (let call_data = fst st; cb = snd st in
      if (case ro_status req_output of Some status \<Rightarrow> \<not> st_ok status | None \<Rightarrow> False)
      then
        (let status = the (ro_status req_output);
             r = finish_with_error ok call_data (st_grpc_code status) (st_message status)
         in (fst r, snd r, cb))
      else if ro_finished req_output
      then
        (let r = send_result_to_client ok call_data (cb_request_id cb) (cb_created_time cb)
                   (cb_model cb) req_output
         in (fst r, snd r, cb))
      else
        (let r = send_delta_to_client ok call_data (cb_first_message_sent cb)
                   (cb_request_id cb) (cb_created_time cb) (cb_model cb) req_output
         in (fst r, fst (snd r), cb\<lparr>cb_first_message_sent := snd (snd r)\<rparr>)))"

text \<open>
  What \<open>chat_async\<close> hands to \<open>LLMHandler::schedule_chat_async\<close>: the messages, the
  sampling parameters, the priority, the stream flag and the callback.
\<close>

record 'p Scheduled =
  sch_messages :: "Message list"
  sch_sampling_params :: SamplingParams
  sch_priority :: 'p
  sch_stream :: bool
  sch_callback :: Callback

text \<open>
  The handler: its configured model set and the \<open>LLMHandler\<close> it points to.
  \<open>schedule_chat_async\<close>, \<open>to_priority\<close> and the defaults of \<open>SamplingParams\<close> are
  declared outside the sources and are parameters, as are the generated request id and
  the clock reading. The function returns the call data and the state of the
  \<open>LLMHandler\<close> after the call.
\<close>

definition chat_async ::
  "('p Scheduled \<Rightarrow> 'h \<Rightarrow> 'h) \<Rightarrow> (nat \<Rightarrow> 'p) \<Rightarrow> SamplingParams \<Rightarrow> (nat \<Rightarrow> bool)
     \<Rightarrow> string \<Rightarrow> int \<Rightarrow> string set \<Rightarrow> 'h \<Rightarrow> ChatCallData \<Rightarrow> ChatCallData \<times> 'h" where
  "chat_async schedule_chat_async to_priority sp0 ok request_id created_time
     models llm_handler call_data =
     (let grpc_request = cd_request call_data;
          model = req_model grpc_request
      in if model \<notin> models
         then (snd (finish_with_error ok call_data NOT_FOUND ''Model not supported''),
               llm_handler)
         else
           (let sp = grpc_request_to_sampling_params sp0 grpc_request;
                priority = to_priority (req_priority grpc_request);
                stream = req_stream grpc_request;
                messages = map (\<lambda>message. \<lparr>msg_role = msg_role message,
                                              msg_content = msg_content message\<rparr>)
                             (req_messages grpc_request)
            in (call_data,
                schedule_chat_async
                  \<lparr>sch_messages = messages, sch_sampling_params = sp,
                   sch_priority = priority, sch_stream = stream,
                   sch_callback =
                     \<lparr>cb_model = model, cb_first_message_sent = {},
                      cb_request_id = request_id, cb_created_time = created_time\<rparr>\<rparr>
                  llm_handler)))"

subsection \<open>A streamed request as the client sees it\<close>

text \<open>
  Modelled from the spec: the scheduler that invokes the callback is not among the
  sources. It calls the callback once per \<open>RequestOutput\<close>, in generation order. A false
  return cancels the request (section 4.3); the scheduler then emits a final cancelled
  event, and no further event follows (section 4.6). The final event is a parameter.
\<close>

fun deliver ::
  "(nat \<Rightarrow> bool) \<Rightarrow> RequestOutput \<Rightarrow> ChatCallData \<times> Callback \<Rightarrow> RequestOutput list
     \<Rightarrow> ChatCallData \<times> Callback" where
  "deliver ok final_event st [] = st"
| "deliver ok final_event st (req_output # rest) =
     (case callback ok st req_output of
        (True, st') \<Rightarrow> deliver ok final_event st' rest
      | (False, st') \<Rightarrow> snd (callback ok st' final_event))"




text \<open>
  The delta events of sequence index \<open>i\<close> among the delivered responses: the chunks whose
  single choice has index \<open>i\<close>, in delivery order.
\<close>

definition is_chunk_for :: "nat \<Rightarrow> ChatResponse \<Rightarrow> bool" where
  "is_chunk_for i r \<longleftrightarrow>
     resp_object r = ''chat.completion.chunk'' \<and> map ch_index (resp_choices r) = [i]"

definition events_for :: "nat \<Rightarrow> ChatResponse list \<Rightarrow> ChatResponse list" where
  "events_for i ws = filter (is_chunk_for i) ws"

text \<open>
  The announcing event: a delta with the role \<open>assistant\<close> and the empty text.
\<close>

definition is_announce :: "ChatResponse \<Rightarrow> bool" where
  "is_announce r \<longleftrightarrow>
     map ch_delta (resp_choices r)
       = [Some \<lparr>cm_role = Some ''assistant'', cm_content = Some []\<rparr>]"






subsection \<open>Concrete inputs\<close>

text \<open>A request, its call data and default sampling parameters, used as concrete inputs.\<close>

definition example_request :: ChatRequest where
  "example_request =
     \<lparr>req_model = ''vicuna'', req_messages = [\<lparr>msg_role = ''user'', msg_content = ''hi''\<rparr>],
      req_stream = True, req_priority = 1, req_max_tokens = Some 16, req_n = None,
      req_frequency_penalty = None, req_presence_penalty = None,
      req_repetition_penalty = None, req_temperature = Some 0, req_top_p = None,
      req_top_k = None, req_skip_special_tokens = None, req_ignore_eos = None,
      req_stop = [], req_stop_token_ids = []\<rparr>"

definition example_call_data :: ChatCallData where
  "example_call_data =
     \<lparr>cd_request = example_request, cd_written = [], cd_finish = None, cd_ops = 0\<rparr>"

definition example_sampling_params :: SamplingParams where
  "example_sampling_params =
     \<lparr>sp_max_tokens = 16, sp_n = 1, sp_frequency_penalty = 0, sp_presence_penalty = 0,
      sp_repetition_penalty = 1, sp_temperature = 1, sp_top_p = 1, sp_top_k = 0,
      sp_skip_special_tokens = True, sp_ignore_eos = False, sp_stop = [],
      sp_stop_token_ids = []\<rparr>"

definition example_callback :: Callback where
  "example_callback =
     \<lparr>cb_model = ''vicuna'', cb_first_message_sent = {}, cb_request_id = ''chatcmpl-0'',
      cb_created_time = 0\<rparr>"

definition example_outputs :: "RequestOutput list" where
  "example_outputs =
     [\<lparr>ro_outputs = [\<lparr>so_index = 0, so_text = ''He'', so_finish_reason = None\<rparr>,
                     \<lparr>so_index = 1, so_text = [], so_finish_reason = None\<rparr>],
       ro_status = None, ro_usage = None, ro_finished = False\<rparr>,
      \<lparr>ro_outputs = [\<lparr>so_index = 0, so_text = ''y'', so_finish_reason = Some ''stop''\<rparr>],
       ro_status = None, ro_usage = None, ro_finished = False\<rparr>]"

text \<open>
  A final cancelled event in the shape of the specification's delta: the sequence with
  no text and the finish reason \<open>cancelled\<close>.
\<close>

definition example_cancelled_event :: RequestOutput where
  "example_cancelled_event =
     \<lparr>ro_outputs = [\<lparr>so_index = 0, so_text = [], so_finish_reason = Some ''cancelled''\<rparr>],
      ro_status = None, ro_usage = None, ro_finished = False\<rparr>"

section \<open>The model factory (\<open>llm::CausalLM::create\<close>)\<close>

subsection \<open>\<open>boost::iequals\<close>\<close>

text \<open>
  \<open>boost::iequals(Input, Test)\<close> is \<open>equals(Input, Test, is_iequal())\<close>: both ranges
  are walked together, two elements compare equal when \<open>std::toupper\<close> maps them to the
  same character, and both ranges must end together. In the default (classic) locale
  \<open>std::toupper\<close> maps \<open>a\<close>..\<open>z\<close> to \<open>A\<close>..\<open>Z\<close> and leaves every other character as it
  is.
\<close>

definition toupper :: "char \<Rightarrow> char" where
  "toupper c =
     (if 97 \<le> (of_char c :: nat) \<and> (of_char c :: nat) \<le> 122
      then char_of (of_char c - 32 :: nat) else c)"

definition is_iequal :: "char \<Rightarrow> char \<Rightarrow> bool" where
  "is_iequal a b \<longleftrightarrow> toupper a = toupper b"

fun equals :: "('a \<Rightarrow> 'a \<Rightarrow> bool) \<Rightarrow> 'a list \<Rightarrow> 'a list \<Rightarrow> bool" where
  "equals cmp [] [] = True"
| "equals cmp (a # input) (b # test) = (if \<not> cmp a b then False else equals cmp input test)"
| "equals cmp input test = False"

definition iequals :: "string \<Rightarrow> string \<Rightarrow> bool" where
  "iequals input test = equals is_iequal input test"

subsection \<open>\<open>CausalLM::create\<close>\<close>

text \<open>
  The model class that \<open>create\<close> instantiates and wraps in a \<open>CausalLMImpl\<close>; \<open>None\<close> is
  the \<open>nullptr\<close> of the last line. Only \<open>args.model_type()\<close> decides the branch; the
  other arguments go to the constructor of the chosen class unchanged.
\<close>

datatype ModelFamily =
  LlamaModel | hf_LlamaModel | hf_GPT2Model | hf_GPTNeoXModel | hf_MistralModel
  | hf_AquilaModel

definition create :: "string \<Rightarrow> ModelFamily option" where
  "create model_type =
     (if iequals model_type ''llama2'' then Some LlamaModel
      else if iequals model_type ''llama'' then Some hf_LlamaModel
      else if iequals model_type ''gpt2'' then Some hf_GPT2Model
      else if iequals model_type ''gpt_neox'' then Some hf_GPTNeoXModel
      else if iequals model_type ''mistral'' then Some hf_MistralModel
      else if iequals model_type ''aquila'' then Some hf_AquilaModel
      else None)"

text \<open>
  Two strings differ only in letter case when lower-casing makes them equal;
  \<open>tolower\<close> maps \<open>A\<close>..\<open>Z\<close> to \<open>a\<close>..\<open>z\<close>.
\<close>

definition tolower :: "char \<Rightarrow> char" where
  "tolower c =
     (if 65 \<le> (of_char c :: nat) \<and> (of_char c :: nat) \<le> 90
      then char_of (of_char c + 32 :: nat) else c)"

definition supported_model_types :: "string set" where
  "supported_model_types = {''llama2'', ''llama'', ''gpt2'', ''gpt_neox'', ''mistral'', ''aquila''}"

section \<open>The LLaMA model (\<open>llm::llama2\<close>)\<close>

subsection \<open>Tensors, errors and slices\<close>

text \<open>
  A two-dimensional tensor is the list of its rows; a row is a value of the type \<open>'r\<close>,
  which stands for a vector of any width. The errors are the ways the library calls of
  the model fail: a shape mismatch between two tensors, an index outside the tensor in
  \<open>index_select\<close>, an index outside a \<open>std::vector\<close>, a failed \<open>CHECK\<close>, and bounds of
  \<open>arange\<close> that contradict the sign of the step.
\<close>

datatype error = ShapeMismatch | IndexOutOfRange | VectorOutOfRange | CheckFailed | InvalidRange

text \<open>
  \<open>Tensor::slice(/*dim=*/0, start, end)\<close> on a tensor of \<open>n\<close> rows: a negative bound counts
  from the end, then both bounds are clamped to the tensor. \<open>slice_start\<close> and
  \<open>slice_end\<close> are the resulting bounds; an omitted \<open>end\<close> is \<open>None\<close>.
\<close>

definition slice_start :: "nat \<Rightarrow> int \<Rightarrow> nat" where
  "slice_start n start =
     (let s = (if start < 0 then start + int n else start)
      in if s < 0 then 0 else if int n \<le> s then n else nat s)"

definition slice_end :: "nat \<Rightarrow> int \<Rightarrow> int option \<Rightarrow> nat" where
  "slice_end n start end_opt =
     (case end_opt of
        None \<Rightarrow> n
      | Some e0 \<Rightarrow>
          (let e = (if e0 < 0 then e0 + int n else e0)
           in if e < int (slice_start n start) then slice_start n start
              else if int n \<le> e then n else nat e))"

definition slice_rows :: "'a list \<Rightarrow> int \<Rightarrow> int option \<Rightarrow> 'a list" where
  "slice_rows t start end_opt =
     take (slice_end (length t) start end_opt - slice_start (length t) start)
       (drop (slice_start (length t) start) t)"

text \<open>
  A slice is a view: a kernel that writes its output argument in place changes the rows
  of the sliced tensor. \<open>write_view t s rows\<close> is \<open>t\<close> after the view that starts at row
  \<open>s\<close> has been overwritten with \<open>rows\<close>.
\<close>

definition write_view :: "'a list \<Rightarrow> nat \<Rightarrow> 'a list \<Rightarrow> 'a list" where
  "write_view t s rows = take s t @ rows @ drop (s + length rows) t"

subsection \<open>Collaborators\<close>

text \<open>
  \<open>InputParameters\<close> (input_parameters.h): the fields the forward pass reads. Field names
  carry the prefix \<open>ip_\<close>.
\<close>

record InputParameters =
  ip_num_prompt_tokens :: int
  ip_slot_ids :: "int list"
  ip_cu_seq_lens :: "int list"
  ip_max_seq_len :: int
  ip_block_tables :: "int list list"
  ip_context_lens :: "int list"
  ip_max_context_len :: int
  ip_last_token_indicies :: "int list"

text \<open>
  The attention kernels, the cache and the tensor arithmetic are defined outside the
  sources and are parameters. A kernel writes a given output tensor in place: its
  parameter is the row it leaves at position \<open>i\<close> of that output, as a function of the
  kernel's inputs and of the row that was there. \<open>'kv\<close> is the type of a \<open>KVCache\<close>.
\<close>

record ('r, 'kv) Kernels =
  varlen_masked_self_attention ::
    "'r list \<Rightarrow> 'r list \<Rightarrow> 'r list \<Rightarrow> int list \<Rightarrow> int \<Rightarrow> nat \<Rightarrow> 'r \<Rightarrow> 'r"
  single_token_masked_self_attention ::
    "'kv \<Rightarrow> 'r list \<Rightarrow> int list list \<Rightarrow> int list \<Rightarrow> int \<Rightarrow> nat \<Rightarrow> 'r \<Rightarrow> 'r"
  set_kv_cache :: "int list \<Rightarrow> 'r list \<Rightarrow> 'r list \<Rightarrow> 'kv \<Rightarrow> 'kv"
  zeros_like :: "'r \<Rightarrow> 'r"
  add :: "'r \<Rightarrow> 'r \<Rightarrow> 'r"
  mul :: "'r \<Rightarrow> 'r \<Rightarrow> 'r"
  silu :: "'r \<Rightarrow> 'r"

text \<open>A kernel run on an output tensor \<open>out\<close>: every row is replaced in place.\<close>

definition in_place :: "(nat \<Rightarrow> 'r \<Rightarrow> 'r) \<Rightarrow> 'r list \<Rightarrow> 'r list" where
  "in_place row_fn out = map (\<lambda>i. row_fn i (out ! i)) [0..<length out]"

subsection \<open>\<open>AttentionImpl\<close>\<close>

text \<open>
  The registered submodules. The linear layers act on each row; the rotary embedding
  acts on the query row and the key row of a token and on its position.
\<close>

record 'r AttentionImpl =
  wq :: "'r \<Rightarrow> 'r"
  wk :: "'r \<Rightarrow> 'r"
  wv :: "'r \<Rightarrow> 'r"
  wo :: "'r \<Rightarrow> 'r"
  pos_emb :: "'r \<Rightarrow> 'r \<Rightarrow> int \<Rightarrow> 'r \<times> 'r"

text \<open>
  The tensor \<open>output\<close> of \<open>AttentionImpl::forward\<close> before the final projection, from the
  query, key and value after the positional embedding and the cache after
  \<open>set_kv_cache\<close>: zeros, then the prefill kernel on the slice \<open>[0, num_prompt_tokens)\<close>
  when \<open>num_prompt_tokens > 0\<close>, then the decode kernel on the slice from
  \<open>num_prompt_tokens\<close> on when \<open>num_prompt_tokens < num_tokens\<close>.
\<close>

definition attention_output ::
  "('r, 'kv) Kernels \<Rightarrow> 'r list \<Rightarrow> 'r list \<Rightarrow> 'r list \<Rightarrow> 'kv \<Rightarrow> InputParameters \<Rightarrow> 'r list" where
  "attention_output K query key val kv_cache input_params =
     (let num_tokens = int (length query);
          output0 = map (zeros_like K) query;
          num_prompt_tokens = ip_num_prompt_tokens input_params;
          output1 =
            (if num_prompt_tokens > 0
             then
               (let sliced_output = slice_rows output0 0 (Some num_prompt_tokens);
                    sliced_query = slice_rows query 0 (Some num_prompt_tokens);
                    sliced_key = slice_rows key 0 (Some num_prompt_tokens);
                    sliced_value = slice_rows val 0 (Some num_prompt_tokens)
                in write_view output0 (slice_start (length output0) 0)
                     (in_place
                        (varlen_masked_self_attention K sliced_query sliced_key sliced_value
                           (ip_cu_seq_lens input_params) (ip_max_seq_len input_params))
                        sliced_output))
             else output0);
          output2 =
            (if num_prompt_tokens < num_tokens
             then
               (let sliced_output = slice_rows output1 num_prompt_tokens None;
                    sliced_query = slice_rows query num_prompt_tokens None
                in write_view output1 (slice_start (length output1) num_prompt_tokens)
                     (in_place
                        (single_token_masked_self_attention K kv_cache sliced_query
                           (ip_block_tables input_params) (ip_context_lens input_params)
                           (ip_max_context_len input_params))
                        sliced_output))
             else output1)
      in output2)"

text \<open>
  \<open>AttentionImpl::forward\<close>. The positional embedding takes one position per token: a
  \<open>positions\<close> tensor of another length is a shape mismatch (the broadcast of a single
  position over all tokens is left out). The result is the projected output and the
  cache after \<open>set_kv_cache\<close>.
\<close>

definition AttentionImpl_forward ::
  "('r, 'kv) Kernels \<Rightarrow> 'r AttentionImpl \<Rightarrow> 'r list \<Rightarrow> int list \<Rightarrow> 'kv \<Rightarrow> InputParameters
     \<Rightarrow> error + ('r list \<times> 'kv)" where
  "AttentionImpl_forward K a x positions kv_cache input_params =
     (if length positions \<noteq> length x then Inl ShapeMismatch
      else
        (let query0 = map (wq a) x;
             key0 = map (wk a) x;
             val = map (wv a) x;
             embedded = map (\<lambda>i. pos_emb a (query0 ! i) (key0 ! i) (positions ! i))
                          [0..<length x];
             query = map fst embedded;
             key = map snd embedded;
             kv_cache' = set_kv_cache K (ip_slot_ids input_params) key val kv_cache;
             output = attention_output K query key val kv_cache' input_params
         in Inr (map (wo a) output, kv_cache')))"

subsection \<open>\<open>FeedForwardImpl\<close> and \<open>TransformerBlockImpl\<close>\<close>

record 'r FeedForwardImpl =
  w1 :: "'r \<Rightarrow> 'r"
  w2 :: "'r \<Rightarrow> 'r"
  w3 :: "'r \<Rightarrow> 'r"

definition FeedForwardImpl_forward ::
  "('r, 'kv) Kernels \<Rightarrow> 'r FeedForwardImpl \<Rightarrow> 'r list \<Rightarrow> 'r list" where
  "FeedForwardImpl_forward K f x = map (\<lambda>r. w2 f (mul K (silu K (w1 f r)) (w3 f r))) x"

record 'r TransformerBlockImpl =
  attention :: "'r AttentionImpl"
  feed_forward :: "'r FeedForwardImpl"
  attention_norm :: "'r \<Rightarrow> 'r"
  ffn_norm :: "'r \<Rightarrow> 'r"

definition TransformerBlockImpl_forward ::
  "('r, 'kv) Kernels \<Rightarrow> 'r TransformerBlockImpl \<Rightarrow> 'r list \<Rightarrow> int list \<Rightarrow> 'kv \<Rightarrow> InputParameters
     \<Rightarrow> error + ('r list \<times> 'kv)" where
  "TransformerBlockImpl_forward K b x positions kv_cache input_params =
     (case AttentionImpl_forward K (attention b) (map (attention_norm b) x) positions kv_cache
             input_params of
        Inl e \<Rightarrow> Inl e
      | Inr (att, kv_cache') \<Rightarrow>
          (let h = map2 (add K) x att;
               out = map2 (add K) h (FeedForwardImpl_forward K (feed_forward b) (map (ffn_norm b) h))
           in Inr (out, kv_cache')))"

subsection \<open>\<open>ModelImpl\<close>\<close>

record 'r ModelImpl =
  tok_embeddings :: "int \<Rightarrow> 'r"
  layers :: "'r TransformerBlockImpl list"
  norm_layer :: "'r \<Rightarrow> 'r"
  output_layer :: "'r \<Rightarrow> 'r"

text \<open>
  The loop over the layers, from layer \<open>i\<close> on: layer \<open>i\<close> runs on \<open>kv_caches[i]\<close> and
  updates it.
\<close>

fun layers_loop ::
  "('r, 'kv) Kernels \<Rightarrow> 'r TransformerBlockImpl list \<Rightarrow> nat \<Rightarrow> 'r list \<Rightarrow> int list \<Rightarrow> 'kv list
     \<Rightarrow> InputParameters \<Rightarrow> error + ('r list \<times> 'kv list)" where
  "layers_loop K [] i h positions kv_caches input_params = Inr (h, kv_caches)"
| "layers_loop K (layer # rest) i h positions kv_caches input_params =
     (if \<not> i < length kv_caches then Inl VectorOutOfRange
      else
        (case TransformerBlockImpl_forward K layer h positions (kv_caches ! i) input_params of
           Inl e \<Rightarrow> Inl e
         | Inr (h', kv_cache') \<Rightarrow>
             layers_loop K rest (Suc i) h' positions (kv_caches[i := kv_cache']) input_params))"

text \<open>
  \<open>Tensor::index_select(/*dim=*/0, index)\<close>: the rows at the given indices, in the order
  of the indices; an index outside \<open>[0, n)\<close> is an error.
\<close>

definition index_select :: "'a list \<Rightarrow> int list \<Rightarrow> error + 'a list" where
  "index_select t idx =
     (if list_all (\<lambda>i. 0 \<le> i \<and> i < int (length t)) idx
      then Inr (map (\<lambda>i. t ! nat i) idx)
      else Inl IndexOutOfRange)"

text \<open>
  The hidden states of all tokens after the embedding, the layers and the final norm
  (the tensor \<open>h\<close> before \<open>index_select\<close>), with the caches after the layers.
\<close>

definition hidden_states ::
  "('r, 'kv) Kernels \<Rightarrow> 'r ModelImpl \<Rightarrow> int list \<Rightarrow> int list \<Rightarrow> 'kv list \<Rightarrow> InputParameters
     \<Rightarrow> error + ('r list \<times> 'kv list)" where
  "hidden_states K m tokens positions kv_caches input_params =
     (case layers_loop K (layers m) 0 (map (tok_embeddings m) tokens) positions kv_caches
             input_params of
        Inl e \<Rightarrow> Inl e
      | Inr (h, kv_caches') \<Rightarrow> Inr (map (norm_layer m) h, kv_caches'))"

definition ModelImpl_forward ::
  "('r, 'kv) Kernels \<Rightarrow> 'r ModelImpl \<Rightarrow> int list \<Rightarrow> int list \<Rightarrow> 'kv list \<Rightarrow> InputParameters
     \<Rightarrow> error + ('r list \<times> 'kv list)" where
  "ModelImpl_forward K m tokens positions kv_caches input_params =
     (case hidden_states K m tokens positions kv_caches input_params of
        Inl e \<Rightarrow> Inl e
      | Inr (h, kv_caches') \<Rightarrow>
          (case index_select h (ip_last_token_indicies input_params) of
             Inl e \<Rightarrow> Inl e
           | Inr selected \<Rightarrow> Inr (map (output_layer m) selected, kv_caches')))"

subsection \<open>Concrete inputs\<close>

text \<open>
  A batch of three rows with integer rows, the first two prefill rows and the last a
  decode row, with kernels that mark which of them wrote a row, and a model of one
  layer.
\<close>

definition example_kernels :: "(int, unit) Kernels" where
  "example_kernels =
     \<lparr>varlen_masked_self_attention = (\<lambda>q k v cu mx i old. old + q ! i + 100),
      single_token_masked_self_attention = (\<lambda>kv q bt cl mx i old. old + q ! i + 200),
      set_kv_cache = (\<lambda>slots k v kv. kv),
      zeros_like = (\<lambda>r. 0),
      add = (\<lambda>a b. a + b),
      mul = (\<lambda>a b. a * b),
      silu = (\<lambda>r. r)\<rparr>"

definition example_input_params :: InputParameters where
  "example_input_params =
     \<lparr>ip_num_prompt_tokens = 2, ip_slot_ids = [0, 1, 9], ip_cu_seq_lens = [0, 2],
      ip_max_seq_len = 2, ip_block_tables = [[0]], ip_context_lens = [6],
      ip_max_context_len = 6, ip_last_token_indicies = [1, 2]\<rparr>"

definition example_model :: "int ModelImpl" where
  "example_model =
     \<lparr>tok_embeddings = (\<lambda>t. 10 * t),
      layers =
        [\<lparr>attention = \<lparr>wq = (\<lambda>r. r + 1), wk = (\<lambda>r. r), wv = (\<lambda>r. r), wo = (\<lambda>r. r),
                        pos_emb = (\<lambda>q k p. (q + p, k + p))\<rparr>,
          feed_forward = \<lparr>w1 = (\<lambda>r. r), w2 = (\<lambda>r. 0), w3 = (\<lambda>r. r)\<rparr>,
          attention_norm = (\<lambda>r. r), ffn_norm = (\<lambda>r. r)\<rparr>],
      norm_layer = (\<lambda>r. r),
      output_layer = (\<lambda>r. r + 1)\<rparr>"
section \<open>Rotary positional embedding (src/layers/pos_embedding.cpp)\<close>

text \<open>
  A float32 value is a finite number \<open>m * 2 ^ e\<close> with integers \<open>m\<close> and \<open>e\<close> (the sign in
  \<open>m\<close>), an infinity, or a NaN. Every value of the IEEE binary32 format is of one of these
  forms; the type does not bound the mantissa or the exponent, so what holds of every
  \<open>float32\<close> here holds of every binary32 value. \<open>valof\<close> is the real number a finite value
  denotes.
\<close>

datatype float32 = Finite int int | Infinity bool | NaN

definition valof :: "float32 \<Rightarrow> real option" where
  "valof f =
     (case f of
        Finite m e \<Rightarrow>
          Some (if 0 \<le> e then real_of_int m * 2 ^ nat e else real_of_int m / 2 ^ nat (- e))
      | Infinity negative \<Rightarrow> None
      | NaN \<Rightarrow> None)"





section \<open>The scheduling core described by the specification\<close>

text \<open>
  The scheduler, the sequences it owns and the block allocator are not among the
  sources; of \<open>best_of\<close> the sources hold only the field of \<open>CompletionRequest\<close>
  (proto/completion.proto). The definitions of this section follow the words of the
  specification.
\<close>

subsection \<open>Sequences and best-of selection\<close>

text \<open>
  Modelled from the spec: the finish reasons of a Sequence (section 4.2); the Sequence
  class is not among the sources.
\<close>

datatype FinishReason = FinishCancelled | FinishError | FinishStop | FinishLength

text \<open>
  Modelled from the spec: the attributes of a Sequence (section 3) that the selection
  reads or that identify it; the Sequence class is not among the sources. Field names
  carry the prefix \<open>seq_\<close>.
\<close>

record Sequence =
  seq_tokens :: "int list"
  seq_num_prompt_tokens :: nat
  seq_block_table :: "nat list"
  seq_finish_reason :: "FinishReason option"
  seq_cumulative_logprob :: real
  seq_index :: nat

text \<open>
  Modelled from the spec: \<open>tokens_generated\<close>, the tokens after the prompt tokens
  ("prompt tokens first"); the Sequence class is not among the sources.
\<close>

definition tokens_generated :: "Sequence \<Rightarrow> nat" where
  "tokens_generated s = length (seq_tokens s) - seq_num_prompt_tokens s"

text \<open>
  Modelled from the spec: the ranking metric \<open>cumulative_logprob / tokens_generated\<close>
  (section 4.3); the scheduler's ranking code is not among the sources.
\<close>

definition normalized_logprob :: "Sequence \<Rightarrow> real" where
  "normalized_logprob s = seq_cumulative_logprob s / real (tokens_generated s)"

text \<open>
  Modelled from the spec: "on completion selects the top-\<open>n\<close> by
  \<open>cumulative_logprob / tokens_generated\<close> and discards the rest" (section 4.3); the
  scheduler's selection code is not among the sources. The siblings are ranked by
  decreasing metric, a sibling staying before the later ones of the same metric; the
  first \<open>n\<close> are delivered and the others discarded.
\<close>

fun insert_ranked :: "Sequence \<Rightarrow> Sequence list \<Rightarrow> Sequence list" where
  "insert_ranked s [] = [s]"
| "insert_ranked s (t # ts) =
     (if normalized_logprob t \<le> normalized_logprob s then s # t # ts
      else t # insert_ranked s ts)"

text \<open>
  Modelled from the spec: the ranking of all siblings of a request by the metric of
  section 4.3, best first; the scheduler's ranking code is not among the sources.
\<close>

fun rank_siblings :: "Sequence list \<Rightarrow> Sequence list" where
  "rank_siblings [] = []"
| "rank_siblings (s # ss) = insert_ranked s (rank_siblings ss)"

text \<open>
  Modelled from the spec: the top-\<open>n\<close> siblings that are delivered (section 4.3); the
  scheduler's selection code is not among the sources.
\<close>

definition select_best :: "nat \<Rightarrow> Sequence list \<Rightarrow> Sequence list" where
  "select_best n siblings = take n (rank_siblings siblings)"

text \<open>
  Modelled from the spec: "the rest", which is discarded (section 4.3); the scheduler's
  selection code is not among the sources.
\<close>

definition discarded :: "nat \<Rightarrow> Sequence list \<Rightarrow> Sequence list" where
  "discarded n siblings = drop n (rank_siblings siblings)"

text \<open>
  A sibling that has finished: its finish reason is set and, a stop check coming only
  after an append, it has generated at least one token.
\<close>

definition finished_with_tokens :: "Sequence \<Rightarrow> bool" where
  "finished_with_tokens s \<longleftrightarrow> seq_finish_reason s \<noteq> None \<and> 0 < tokens_generated s"

text \<open>A list of sequences in which the metric never increases.\<close>

fun descending :: "Sequence list \<Rightarrow> bool" where
  "descending [] = True"
| "descending [s] = True"
| "descending (s # t # ts) =
     (normalized_logprob t \<le> normalized_logprob s \<and> descending (t # ts))"

subsection \<open>The block allocator and the recovery from \<open>OutOfBlocks\<close>\<close>

text \<open>
  Modelled from the spec: the error kinds of section 7; the core's error type is not
  among the sources.
\<close>

datatype ErrorKind = InvalidRequest | OutOfBlocks | EngineError | Cancelled | InternalError

text \<open>
  Modelled from the spec: the Block Allocator of sections 3 and 4.1, which is not among
  the sources: a pool of \<open>num_total\<close> blocks, the free list, and the reference count of
  every block id.
\<close>

record Allocator =
  num_total :: nat
  free_list :: "nat list"
  ref_count :: "nat \<Rightarrow> nat"

text \<open>
  Modelled from the spec: \<open>num_free()\<close>, the number of blocks on the free list (section
  4.1); the allocator is not among the sources.
\<close>

definition num_free :: "Allocator \<Rightarrow> nat" where
  "num_free a = length (free_list a)"

text \<open>
  Modelled from the spec: "\<open>allocate(count) -> [id]\<close>: returns \<open>count\<close> ids; fails with
  \<open>OutOfBlocks\<close> if fewer are free" (section 4.1); the allocator is not among the
  sources. The ids come from the head of the free list (LIFO) and become referenced
  once. The result pairs the outcome with the allocator after the call.
\<close>

definition allocate :: "nat \<Rightarrow> Allocator \<Rightarrow> (ErrorKind + nat list) \<times> Allocator" where
  "allocate cnt a =
     (if num_free a < cnt then (Inl OutOfBlocks, a)
      else
        (Inr (take cnt (free_list a)),
         a\<lparr>free_list := drop cnt (free_list a),
           ref_count :=
             (\<lambda>b. if b \<in> set (take cnt (free_list a)) then 1 else ref_count a b)\<rparr>))"

text \<open>
  Modelled from the spec: an event delivered to the output sink of a request, with the
  typed status that an error is surfaced with (sections 4.3 and 7); the event type is
  not among the sources.
\<close>

record OutputEvent =
  ev_request :: string
  ev_status :: "ErrorKind option"
  ev_text :: string

text \<open>
  Modelled from the spec: the state the scheduler thread owns, as far as a reservation
  touches it: the allocator, the running pool and the events handed to the sinks so
  far; the scheduler is not among the sources. \<open>'q\<close> is the type of a running entry.
\<close>

record 'q Core =
  allocator :: Allocator
  running :: "'q list"
  sink :: "OutputEvent list"

text \<open>
  Modelled from the spec: the outcome of the reservation of the decode pass for one
  Sequence (section 4.5, step 1); the batch builder is not among the sources: "If \<open>need \<le> free\<close>, reserve via
  Allocator [...]. If \<open>need > free\<close>, invoke Scheduler's preempt-one hook; if it frees
  blocks, retry; otherwise stop admitting decodes." The hook is a parameter: it returns
  the state after an eviction, or \<open>None\<close> when it frees nothing. The first argument
  after the hook bounds the number of attempts; \<open>None\<close> is the result of a run that
  would need more.
\<close>

datatype Reservation = Reserved "nat list" | StopDecodes

text \<open>
  Modelled from the spec: the reservation loop just described (section 4.5, step 1); the
  batch builder is not among the sources.
\<close>

fun reserve_decode ::
  "('q Core \<Rightarrow> 'q Core option) \<Rightarrow> nat \<Rightarrow> nat \<Rightarrow> 'q Core \<Rightarrow> (Reservation \<times> 'q Core) option" where
  "reserve_decode preempt_one 0 need st = None"
| "reserve_decode preempt_one (Suc fuel) need st =
     (case allocate need (allocator st) of
        (Inr ids, a') \<Rightarrow> Some (Reserved ids, st\<lparr>allocator := a'\<rparr>)
      | (Inl e, a') \<Rightarrow>
          (case preempt_one (st\<lparr>allocator := a'\<rparr>) of
             None \<Rightarrow> Some (StopDecodes, st\<lparr>allocator := a'\<rparr>)
           | Some st' \<Rightarrow> reserve_decode preempt_one fuel need st'))"

text \<open>
  Modelled from the spec: a preemption hands no event to a sink: the evicted request
  re-enters a pool and delivers nothing (section 4.6); the scheduler is not among the
  sources.
\<close>

definition quiet :: "('q Core \<Rightarrow> 'q Core option) \<Rightarrow> bool" where
  "quiet preempt_one \<longleftrightarrow> (\<forall>s s'. preempt_one s = Some s' \<longrightarrow> sink s' = sink s)"

text \<open>
  Modelled from the spec: a preemption evicts a running Sequence, so the running pool
  shrinks (section 4.6); the scheduler is not among the sources.
\<close>

definition evicting :: "('q Core \<Rightarrow> 'q Core option) \<Rightarrow> bool" where
  "evicting preempt_one \<longleftrightarrow>
     (\<forall>s s'. preempt_one s = Some s' \<longrightarrow> length (running s') < length (running s))"

subsection \<open>Concrete inputs\<close>

text \<open>Three finished siblings of one request, with metrics \<open>-1\<close>, \<open>-1/2\<close> and \<open>-2\<close>.\<close>

definition example_siblings :: "Sequence list" where
  "example_siblings =
     [\<lparr>seq_tokens = [7, 1, 2], seq_num_prompt_tokens = 1, seq_block_table = [0],
       seq_finish_reason = Some FinishLength, seq_cumulative_logprob = -2, seq_index = 0\<rparr>,
      \<lparr>seq_tokens = [7, 3, 4], seq_num_prompt_tokens = 1, seq_block_table = [1],
       seq_finish_reason = Some FinishStop, seq_cumulative_logprob = -1, seq_index = 1\<rparr>,
      \<lparr>seq_tokens = [7, 5], seq_num_prompt_tokens = 1, seq_block_table = [2],
       seq_finish_reason = Some FinishStop, seq_cumulative_logprob = -2, seq_index = 2\<rparr>]"

text \<open>
  A core with two free blocks and two running entries, each entry being the list of the
  blocks it holds, and a hook that evicts the first running entry and frees its blocks.
\<close>

definition example_core :: "nat list Core" where
  "example_core =
     \<lparr>allocator = \<lparr>num_total = 6, free_list = [5, 4],
                    ref_count = (\<lambda>b. if b < 4 then 1 else 0)\<rparr>,
      running = [[0, 1], [2, 3]],
      sink = []\<rparr>"

definition example_preempt_one :: "nat list Core \<Rightarrow> nat list Core option" where
  "example_preempt_one st =
     (case running st of
        [] \<Rightarrow> None
      | q # rest \<Rightarrow>
          Some (st\<lparr>allocator := (allocator st)\<lparr>free_list := q @ free_list (allocator st)\<rparr>,
                   running := rest\<rparr>))"
section \<open>Properties of the chat handler\<close>

text \<open>
  C8. For a request whose model is not in the handler's configured model set,
  \<open>chat_async\<close> finishes the call with status \<open>NOT_FOUND\<close> and the message
  "Model not supported", writes no response, and returns without scheduling anything:
  the state of the \<open>LLMHandler\<close> (the scheduler behind it) is the one before the call,
  whatever \<open>schedule_chat_async\<close> would do.
\<close>

theorem chat_async_unknown_model:
  assumes "req_model (cd_request call_data) \<notin> models"
  shows "snd (chat_async schedule_chat_async to_priority sp0 ok request_id created_time
                models llm_handler call_data) = llm_handler
         \<and> cd_finish (fst (chat_async schedule_chat_async to_priority sp0 ok request_id
                created_time models llm_handler call_data))
             = Some (NOT_FOUND, ''Model not supported'')
         \<and> cd_written (fst (chat_async schedule_chat_async to_priority sp0 ok request_id
                created_time models llm_handler call_data)) = cd_written call_data"
  using assms by (simp add: chat_async_def finish_with_error_def Let_def)

theorem chat_async_unknown_model_witness:
  "req_model (cd_request example_call_data) \<notin> {''llama2'', ''gpt2''}
   \<and> snd (chat_async (\<lambda>s h. s # h) (\<lambda>p. p) example_sampling_params (\<lambda>k. True) ''chatcmpl-0'' 0
            {''llama2'', ''gpt2''} [] example_call_data) = []
   \<and> cd_finish (fst (chat_async (\<lambda>s h. s # h) (\<lambda>p. p) example_sampling_params (\<lambda>k. True)
            ''chatcmpl-0'' 0 {''llama2'', ''gpt2''} [] example_call_data))
       = Some (NOT_FOUND, ''Model not supported'')
   \<and> cd_written (fst (chat_async (\<lambda>s h. s # h) (\<lambda>p. p) example_sampling_params (\<lambda>k. True)
            ''chatcmpl-0'' 0 {''llama2'', ''gpt2''} [] example_call_data))
       = cd_written example_call_data"
proof -
  have h: "req_model (cd_request example_call_data) \<notin> {''llama2'', ''gpt2''}"
    by (simp add: example_call_data_def example_request_def)
  show ?thesis
    using h chat_async_unknown_model [OF h, where schedule_chat_async = "\<lambda>s h. s # h"
        and to_priority = "\<lambda>p. p" and ?sp0.0 = example_sampling_params
        and ok = "\<lambda>k. True" and request_id = "''chatcmpl-0''" and created_time = 0
        and llm_handler = "[]"]
    by simp
qed

subsection \<open>Streaming deltas\<close>

text \<open>How one more delivered response changes the events of an index.\<close>

lemma events_for_append [simp]:
  "events_for i (ws @ [r]) = events_for i ws @ (if is_chunk_for i r then [r] else [])"
  by (simp add: events_for_def)

lemma chunk_for_role [simp]: "is_chunk_for j (role_chunk rid ct m i) \<longleftrightarrow> j = i"
  by (auto simp add: is_chunk_for_def role_chunk_def)

lemma chunk_for_text [simp]: "is_chunk_for j (text_chunk rid ct m i t) \<longleftrightarrow> j = i"
  by (auto simp add: is_chunk_for_def text_chunk_def)

lemma chunk_for_finish [simp]: "is_chunk_for j (finish_chunk rid ct m i t) \<longleftrightarrow> j = i"
  by (auto simp add: is_chunk_for_def finish_chunk_def)

lemma announce_role [simp]: "is_announce (role_chunk rid ct m i)"
  by (simp add: is_announce_def role_chunk_def)

lemma announce_text [simp]: "\<not> is_announce (text_chunk rid ct m i t)"
  by (simp add: is_announce_def text_chunk_def)

lemma announce_finish [simp]: "\<not> is_announce (finish_chunk rid ct m i t)"
  by (simp add: is_announce_def finish_chunk_def)
























lemma is_chunk_for_result [simp]:
  "\<not> is_chunk_for i \<lparr>resp_object = ''chat.completion'', resp_id = a, resp_created = c,
       resp_model = d, resp_choices = e, resp_usage = f\<rparr>"
  by (simp add: is_chunk_for_def)








text \<open>
  The delivered events of index \<open>0\<close> for the example outputs, on a transport that accepts
  everything and on one that refuses the first operation only.
\<close>

lemma example_events:
  "events_for 0 (cd_written (fst (deliver (\<lambda>k. True) example_cancelled_event
      (example_call_data, example_callback) example_outputs)))
   = [role_chunk ''chatcmpl-0'' 0 ''vicuna'' 0,
      text_chunk ''chatcmpl-0'' 0 ''vicuna'' 0 ''He'',
      text_chunk ''chatcmpl-0'' 0 ''vicuna'' 0 ''y'',
      finish_chunk ''chatcmpl-0'' 0 ''vicuna'' 0 ''stop'']"
  by (simp add: example_outputs_def example_callback_def example_call_data_def callback_def
      send_delta_to_client_def send_seq_delta_def write_response_def Let_def events_for_def
      is_chunk_for_def role_chunk_def text_chunk_def finish_chunk_def)





section \<open>Properties of the model factory\<close>

text \<open>\<open>std::toupper\<close> and \<open>tolower\<close> on character codes.\<close>

lemma of_char_lt: "(of_char c :: nat) < 256"
proof -
  have "(of_char c :: nat) mod 256 < 256" by simp
  then show ?thesis by simp
qed

lemma of_char_toupper: "(of_char (toupper c) :: nat) = (if 97 \<le> (of_char c :: nat) \<and> (of_char c :: nat) \<le> 122 then of_char c - 32 else of_char c)"
proof -
  have "(of_char c :: nat) - 32 < 256"
    using of_char_lt [of c] by (rule less_imp_diff_less)
  then have "((of_char c :: nat) - 32) mod 256 = of_char c - 32"
    by (rule mod_less)
  then show ?thesis
    by (simp add: toupper_def)
qed

lemma of_char_tolower: "(of_char (tolower c) :: nat) = (if 65 \<le> (of_char c :: nat) \<and> (of_char c :: nat) \<le> 90 then of_char c + 32 else of_char c)"
  by (simp add: tolower_def)

lemma is_iequal_tolower: "is_iequal a b \<longleftrightarrow> tolower a = tolower b"
proof -
  have "(of_char (toupper a) :: nat) = of_char (toupper b) \<longleftrightarrow> (of_char (tolower a) :: nat) = of_char (tolower b)"
    unfolding of_char_toupper of_char_tolower
    by (auto simp del: of_char_eq_iff)
  then show ?thesis
    by (simp add: is_iequal_def)
qed

lemma equals_list_all2: "equals cmp xs ys \<longleftrightarrow> list_all2 cmp xs ys"
  by (induction cmp xs ys rule: equals.induct) auto

lemma iequals_tolower: "iequals s t \<longleftrightarrow> map tolower s = map tolower t"
  unfolding iequals_def equals_list_all2
  by (induction s t rule: list_induct2') (simp_all add: is_iequal_tolower)

lemma supported_lower:
  "map tolower ''llama2'' = ''llama2''" "map tolower ''llama'' = ''llama''"
  "map tolower ''gpt2'' = ''gpt2''" "map tolower ''gpt_neox'' = ''gpt_neox''"
  "map tolower ''mistral'' = ''mistral''" "map tolower ''aquila'' = ''aquila''"
  by (simp_all add: tolower_def)

lemma create_tolower:
  "create model_type =
     (if map tolower model_type = ''llama2'' then Some LlamaModel
      else if map tolower model_type = ''llama'' then Some hf_LlamaModel
      else if map tolower model_type = ''gpt2'' then Some hf_GPT2Model
      else if map tolower model_type = ''gpt_neox'' then Some hf_GPTNeoXModel
      else if map tolower model_type = ''mistral'' then Some hf_MistralModel
      else if map tolower model_type = ''aquila'' then Some hf_AquilaModel
      else None)"
  unfolding create_def iequals_tolower supported_lower ..

text \<open>
  C9. \<open>CausalLM::create\<close> matches \<open>model_type\<close> case-insensitively: two strings that
  differ only in letter case give the same result. It returns \<open>nullptr\<close> exactly for the
  model types that are, up to letter case, outside
  \<open>{llama2, llama, gpt2, gpt_neox, mistral, aquila}\<close>; no branch of the function raises.
\<close>

theorem create_case_insensitive:
  "(map tolower s = map tolower t \<longrightarrow> create s = create t)
   \<and> (create s = None \<longleftrightarrow> map tolower s \<notin> supported_model_types)"
  by (simp add: create_tolower supported_model_types_def)

lemma create_examples:
  "map tolower ''LLaMA2'' = map tolower ''llama2''" "create ''LLaMA2'' = Some LlamaModel"
  "create ''llama2'' = Some LlamaModel" "map tolower ''bert'' \<notin> supported_model_types"
  by code_simp+

theorem create_case_insensitive_witness:
  "map tolower ''LLaMA2'' = map tolower ''llama2''
   \<and> create ''LLaMA2'' = create ''llama2''
   \<and> create ''LLaMA2'' = Some LlamaModel
   \<and> map tolower ''bert'' \<notin> supported_model_types
   \<and> create ''bert'' = None"
  using create_case_insensitive [of "''LLaMA2''" "''llama2''"]
    create_case_insensitive [of "''bert''" "''bert''"] create_examples
  by simp

section \<open>Properties of the LLaMA forward pass\<close>

subsection \<open>Slices and views\<close>

lemma length_in_place [simp]: "length (in_place f out) = length out"
  by (simp add: in_place_def)

lemma slice_prefix:
  assumes "0 \<le> e" "e \<le> int (length t)"
  shows "slice_rows t 0 (Some e) = take (nat e) t"
  using assms by (auto simp add: slice_rows_def slice_start_def slice_end_def Let_def)

lemma slice_suffix:
  assumes "0 \<le> s" "s \<le> int (length t)"
  shows "slice_rows t s None = drop (nat s) t"
  using assms by (auto simp add: slice_rows_def slice_start_def slice_end_def Let_def)

lemma slice_start_zero: "slice_start n 0 = 0"
  by (simp add: slice_start_def)

lemma slice_start_in: "0 \<le> s \<Longrightarrow> s \<le> int n \<Longrightarrow> slice_start n s = nat s"
  by (auto simp add: slice_start_def)

lemma slice_start_le: "slice_start n s \<le> n"
  unfolding slice_start_def Let_def by auto

lemma slice_length_le: "slice_start (length t) s + length (slice_rows t s e) \<le> length t"
  using slice_start_le [of "length t" s] by (simp add: slice_rows_def)

lemma length_write_view: "s + length rows \<le> length t \<Longrightarrow> length (write_view t s rows) = length t"
  by (simp add: write_view_def)

lemma in_place_take_map:
  "p \<le> length xs \<Longrightarrow> in_place f (take p (map z xs)) = map (\<lambda>i. f i (z (xs ! i))) [0..<p]"
  by (simp add: in_place_def min_def)

lemma in_place_drop_map:
  "in_place g (drop p (map z xs)) = map (\<lambda>i. g i (z (xs ! (p + i)))) [0..<length xs - p]"
  by (simp add: in_place_def)

lemma length_write_slice:
  "n = length t \<Longrightarrow> length (write_view t (slice_start n s) (in_place f (slice_rows t s e))) = length t"
  using slice_length_le [of t s e] by (simp add: length_write_view)

lemma length_attention_output [simp]:
  "length (attention_output K query key val kv ip) = length query"
proof -
  define out0 where "out0 = map (zeros_like K) query"
  define out1 where "out1 = (if ip_num_prompt_tokens ip > 0
     then write_view out0 (slice_start (length out0) 0)
            (in_place (varlen_masked_self_attention K (slice_rows query 0 (Some (ip_num_prompt_tokens ip)))
                (slice_rows key 0 (Some (ip_num_prompt_tokens ip))) (slice_rows val 0 (Some (ip_num_prompt_tokens ip)))
                (ip_cu_seq_lens ip) (ip_max_seq_len ip))
              (slice_rows out0 0 (Some (ip_num_prompt_tokens ip))))
     else out0)"
  have l1: "length out1 = length query"
    by (simp add: out1_def out0_def length_write_slice)
  have "attention_output K query key val kv ip =
     (if ip_num_prompt_tokens ip < int (length query)
      then write_view out1 (slice_start (length out1) (ip_num_prompt_tokens ip))
             (in_place (single_token_masked_self_attention K kv (slice_rows query (ip_num_prompt_tokens ip) None)
                 (ip_block_tables ip) (ip_context_lens ip) (ip_max_context_len ip))
               (slice_rows out1 (ip_num_prompt_tokens ip) None))
      else out1)"
    unfolding attention_output_def Let_def out1_def out0_def ..
  then show ?thesis
    using l1 by (simp add: length_write_slice)
qed

subsection \<open>Prefill rows and decode rows\<close>

text \<open>
  \<open>AttentionImpl::forward\<close> splits the rows of a batch at \<open>num_prompt_tokens\<close>, whatever
  the batch holds there. When \<open>num_prompt_tokens\<close> lies between \<open>0\<close> and the number of
  rows, output row \<open>i < num_prompt_tokens\<close> is written by the prefill kernel run on the
  first \<open>num_prompt_tokens\<close> rows of query, key and value, and output row
  \<open>num_prompt_tokens + i\<close> is written by the decode kernel run on the remaining rows of
  the query; no row is written by both and none is left out. That the rows before
  \<open>num_prompt_tokens\<close> are the prompt tokens of the batch is the obligation of the batch
  builder, which is not among the sources.
\<close>

lemma attention_rows_split:
  assumes "0 \<le> ip_num_prompt_tokens ip" and "ip_num_prompt_tokens ip \<le> int (length query)"
    and "length key = length query" and "length val = length query"
  shows "attention_output K query key val kv ip =
       map (\<lambda>i. varlen_masked_self_attention K
                   (take (nat (ip_num_prompt_tokens ip)) query)
                   (take (nat (ip_num_prompt_tokens ip)) key)
                   (take (nat (ip_num_prompt_tokens ip)) val)
                   (ip_cu_seq_lens ip) (ip_max_seq_len ip) i (zeros_like K (query ! i)))
         [0..<nat (ip_num_prompt_tokens ip)]
     @ map (\<lambda>i. single_token_masked_self_attention K kv
                   (drop (nat (ip_num_prompt_tokens ip)) query)
                   (ip_block_tables ip) (ip_context_lens ip) (ip_max_context_len ip) i
                   (zeros_like K (query ! (nat (ip_num_prompt_tokens ip) + i))))
         [0..<length query - nat (ip_num_prompt_tokens ip)]"
proof -
  define p where "p = nat (ip_num_prompt_tokens ip)"
  define n where "n = length query"
  define out0 where "out0 = map (zeros_like K) query"
  define f where "f = varlen_masked_self_attention K (take p query) (take p key) (take p val)
                   (ip_cu_seq_lens ip) (ip_max_seq_len ip)"
  define g where "g = single_token_masked_self_attention K kv (drop p query)
                   (ip_block_tables ip) (ip_context_lens ip) (ip_max_context_len ip)"
  have npt: "ip_num_prompt_tokens ip = int p" and pn: "p \<le> n"
    using assms by (simp_all add: p_def n_def)
  define out1 where "out1 = (if 0 < p then write_view out0 0 (in_place f (take p out0)) else out0)"
  define out2 where "out2 = (if p < n then write_view out1 p (in_place g (drop p out1)) else out1)"
  have len0: "length out0 = n" by (simp add: out0_def n_def)
  have o1: "out1 = in_place f (take p out0) @ drop p out0"
    using pn len0 by (cases "0 < p") (simp_all add: out1_def write_view_def in_place_def)
  have len1: "length out1 = n" using pn len0 by (simp add: o1)
  have d1: "drop p out1 = drop p out0" using pn len0 by (simp add: o1)
  have t1: "take p out1 = in_place f (take p out0)" using pn len0 by (simp add: o1)
  have o2: "out2 = in_place f (take p out0) @ in_place g (drop p out0)"
  proof (cases "p < n")
    case True
    then show ?thesis using len1 by (simp add: out2_def write_view_def d1 t1 len0)
  next
    case False
    with pn have "p = n" by simp
    then show ?thesis using len0 len1 by (simp add: out2_def o1 in_place_def)
  qed
  have u1: "(if ip_num_prompt_tokens ip > 0
       then write_view out0 (slice_start (length out0) 0)
              (in_place (varlen_masked_self_attention K
                  (slice_rows query 0 (Some (ip_num_prompt_tokens ip)))
                  (slice_rows key 0 (Some (ip_num_prompt_tokens ip)))
                  (slice_rows val 0 (Some (ip_num_prompt_tokens ip)))
                  (ip_cu_seq_lens ip) (ip_max_seq_len ip))
                (slice_rows out0 0 (Some (ip_num_prompt_tokens ip))))
       else out0) = out1"
    using pn assms(3,4) len0
    by (simp add: npt slice_prefix slice_start_zero out1_def f_def n_def)
  have u2: "(if ip_num_prompt_tokens ip < int (length query)
       then write_view out1 (slice_start (length out1) (ip_num_prompt_tokens ip))
              (in_place (single_token_masked_self_attention K kv
                  (slice_rows query (ip_num_prompt_tokens ip) None)
                  (ip_block_tables ip) (ip_context_lens ip) (ip_max_context_len ip))
                (slice_rows out1 (ip_num_prompt_tokens ip) None))
       else out1) = out2"
    using pn len1
    by (simp add: npt slice_suffix slice_start_in out2_def g_def n_def)
  have unfold: "attention_output K query key val kv ip = out2"
    unfolding attention_output_def Let_def
    unfolding out0_def [symmetric] u1 u2 ..
  show ?thesis
    unfolding unfold o2 out0_def
    using pn by (simp add: in_place_take_map in_place_drop_map f_def g_def p_def n_def)
qed

lemma attention_rows_split_example:
  "0 \<le> ip_num_prompt_tokens example_input_params
   \<and> ip_num_prompt_tokens example_input_params \<le> int (length [1, 2, 3 :: int])
   \<and> attention_output example_kernels [1, 2, 3] [4, 5, 6] [7, 8, 9] () example_input_params
       = [101, 102, 203]"
proof -
  have h1: "0 \<le> ip_num_prompt_tokens example_input_params"
    by (simp add: example_input_params_def)
  have h2: "ip_num_prompt_tokens example_input_params \<le> int (length [1, 2, 3 :: int])"
    by (simp add: example_input_params_def)
  have upt_two: "[0..<2] = [0, Suc 0]"
    by code_simp
  have h3: "length [4, 5, 6 :: int] = length [1, 2, 3 :: int]"
    and h4: "length [7, 8, 9 :: int] = length [1, 2, 3 :: int]"
    by simp_all
  from attention_rows_split [OF h1 h2 h3 h4, of example_kernels "()"]
  have "attention_output example_kernels [1, 2, 3] [4, 5, 6] [7, 8, 9] () example_input_params
          = [101, 102, 203]"
    by (simp add: example_kernels_def example_input_params_def upt_two)
  with h1 h2 show ?thesis by simp
qed

subsection \<open>The rows of the logits\<close>

text \<open>Every layer keeps the number of rows, so the hidden states have one row per token.\<close>

lemma AttentionImpl_forward_length:
  "AttentionImpl_forward K a x positions kv ip = Inr (y, kv') \<Longrightarrow> length y = length x"
  by (auto simp add: AttentionImpl_forward_def Let_def split: if_splits)

lemma TransformerBlockImpl_forward_length:
  "TransformerBlockImpl_forward K b x positions kv ip = Inr (y, kv') \<Longrightarrow> length y = length x"
  by (auto simp add: TransformerBlockImpl_forward_def FeedForwardImpl_forward_def Let_def
      split: sum.splits dest!: AttentionImpl_forward_length)

lemma layers_loop_length:
  "layers_loop K ls i h positions kvs ip = Inr (h', kvs') \<Longrightarrow> length h' = length h"
proof (induction ls arbitrary: i h kvs)
  case Nil
  then show ?case by simp
next
  case (Cons layer rest)
  from Cons.prems obtain h1 kv1 where
    step: "TransformerBlockImpl_forward K layer h positions (kvs ! i) ip = Inr (h1, kv1)"
    and rest: "layers_loop K rest (Suc i) h1 positions (kvs[i := kv1]) ip = Inr (h', kvs')"
    by (auto split: if_splits sum.splits)
  from Cons.IH [OF rest] TransformerBlockImpl_forward_length [OF step]
  show ?case by simp
qed

lemma hidden_states_length:
  "hidden_states K m tokens positions kvs ip = Inr (h, kvs') \<Longrightarrow> length h = length tokens"
  by (auto simp add: hidden_states_def split: sum.splits dest!: layers_loop_length)


text \<open>
  C3. The model forward returns logits exactly when the layers succeed and every entry
  of \<open>last_token_indicies\<close> is the position of a token of the batch; the logits then have
  one row per entry of \<open>last_token_indicies\<close>, in that order, and the row for the entry
  \<open>i\<close> is the output projection of the hidden-state row at position \<open>i\<close>. No other
  position of the hidden states yields a row of the logits.
\<close>

theorem forward_logits_rows:
  "ModelImpl_forward K m tokens positions kv_caches ip = Inr (logits, kv') \<longleftrightarrow>
     (\<exists>h. hidden_states K m tokens positions kv_caches ip = Inr (h, kv')
          \<and> length h = length tokens
          \<and> list_all (\<lambda>i. 0 \<le> i \<and> i < int (length tokens)) (ip_last_token_indicies ip)
          \<and> logits = map (\<lambda>i. output_layer m (h ! nat i)) (ip_last_token_indicies ip))"
proof (cases "hidden_states K m tokens positions kv_caches ip")
  case (Inl e)
  then show ?thesis by (simp add: ModelImpl_forward_def)
next
  case (Inr r)
  obtain h kvs where r: "r = (h, kvs)" by (cases r)
  from Inr r hidden_states_length have len: "length h = length tokens" by blast
  show ?thesis
    using Inr r len by (auto simp add: ModelImpl_forward_def index_select_def)
qed

lemma example_hidden_states:
  "hidden_states example_kernels example_model [5, 6, 7] [0, 1, 5] [()] example_input_params
     = Inr ([201, 222, 346], [()])"
  by code_simp

theorem forward_logits_rows_witness:
  "ModelImpl_forward example_kernels example_model [5, 6, 7] [0, 1, 5] [()] example_input_params
     = Inr ([223, 347], [()])
   \<and> hidden_states example_kernels example_model [5, 6, 7] [0, 1, 5] [()] example_input_params
     = Inr ([201, 222, 346], [()])
   \<and> ip_last_token_indicies example_input_params = [1, 2]"
  using forward_logits_rows [of example_kernels example_model "[5, 6, 7]" "[0, 1, 5]" "[()]"
      example_input_params "[223, 347]" "[()]"] example_hidden_states
  by (simp add: example_input_params_def example_model_def)
section \<open>Properties of the rotary positional embedding\<close>




lemma theta_value: "valof (Finite 625 4) = Some 10000"
  by (simp add: valof_def)






section \<open>Properties of the scheduling core described by the specification\<close>

subsection \<open>Best-of selection\<close>

lemma mset_insert_ranked: "mset (insert_ranked s ts) = add_mset s (mset ts)"
  by (induction ts) auto

lemma mset_rank_siblings: "mset (rank_siblings ss) = mset ss"
  by (induction ss) (auto simp add: mset_insert_ranked)

lemma descending_insert_ranked: "descending ts \<Longrightarrow> descending (insert_ranked s ts)"
proof (induction ts rule: descending.induct)
  case 1
  then show ?case by simp
next
  case (2 t)
  then show ?case by auto
next
  case (3 t u us)
  then show ?case by auto
qed

lemma descending_rank_siblings: "descending (rank_siblings ss)"
  by (induction ss) (auto simp add: descending_insert_ranked)

lemma descending_Cons:
  "descending (s # ts) \<longleftrightarrow> (\<forall>t \<in> set ts. normalized_logprob t \<le> normalized_logprob s) \<and> descending ts"
  by (induction ts arbitrary: s) (auto intro: order_trans)

lemma descending_append:
  "descending (xs @ ys) \<Longrightarrow> \<forall>d \<in> set xs. \<forall>r \<in> set ys. normalized_logprob r \<le> normalized_logprob d"
  by (induction xs) (auto simp add: descending_Cons)

text \<open>
  C1. For a request with \<open>best_of\<close> finished siblings of which \<open>n\<close> are returned
  (\<open>0 < n \<le> best_of\<close>): exactly \<open>n\<close> siblings are delivered, the delivered and the
  discarded ones together are the siblings, no discarded sibling has a higher
  length-normalized cumulative log-probability than a delivered one, and the first
  delivered choice has the maximum of the metric over all siblings.
\<close>

theorem best_of_top_n:
  assumes "0 < n" and "n \<le> length siblings" and "list_all finished_with_tokens siblings"
  shows "length (select_best n siblings) = n
     \<and> mset (select_best n siblings) + mset (discarded n siblings) = mset siblings
     \<and> (\<forall>d \<in> set (select_best n siblings). \<forall>r \<in> set (discarded n siblings).
           normalized_logprob r \<le> normalized_logprob d)
     \<and> normalized_logprob (hd (select_best n siblings))
         = Max (normalized_logprob ` set siblings)"
proof -
  let ?r = "rank_siblings siblings"
  have len: "length ?r = length siblings"
    by (metis mset_rank_siblings size_mset)
  have split: "take n ?r @ drop n ?r = ?r" by simp
  have a: "length (select_best n siblings) = n"
    using assms(2) len by (simp add: select_best_def)
  have b: "mset (select_best n siblings) + mset (discarded n siblings) = mset siblings"
    unfolding select_best_def discarded_def
    by (metis split mset_append mset_rank_siblings)
  have c: "\<forall>d \<in> set (select_best n siblings). \<forall>r \<in> set (discarded n siblings).
           normalized_logprob r \<le> normalized_logprob d"
    unfolding select_best_def discarded_def
    using descending_append [of "take n ?r" "drop n ?r"] descending_rank_siblings [of siblings]
    by simp
  obtain s ts where r: "?r = s # ts"
    using assms(1,2) len by (cases ?r) auto
  have hd: "hd (select_best n siblings) = s"
    using assms(1) r by (cases n) (simp_all add: select_best_def)
  have sets: "set siblings = insert s (set ts)"
    by (metis r mset_rank_siblings set_mset_mset list.simps(15))
  have ge: "\<forall>t \<in> set ts. normalized_logprob t \<le> normalized_logprob s"
    using descending_rank_siblings [of siblings] by (simp add: r descending_Cons)
  have d: "Max (normalized_logprob ` set siblings) = normalized_logprob s"
    unfolding sets using ge by (intro Max_eqI) auto
  show ?thesis using a b c d hd by simp
qed

lemma example_ranking:
  "map seq_index (rank_siblings example_siblings) = [1, 0, 2]"
  by (simp add: example_siblings_def normalized_logprob_def tokens_generated_def)

theorem best_of_top_n_witness:
  "(0 :: nat) < 1 \<and> 1 \<le> length example_siblings
   \<and> list_all finished_with_tokens example_siblings
   \<and> length (select_best 1 example_siblings) = 1
   \<and> map seq_index (select_best 1 example_siblings) = [1]
   \<and> normalized_logprob (hd (select_best 1 example_siblings))
       = Max (normalized_logprob ` set example_siblings)"
proof -
  have h1: "(0 :: nat) < 1" by simp
  have h2: "1 \<le> length example_siblings" by (simp add: example_siblings_def)
  have h3: "list_all finished_with_tokens example_siblings"
    by (simp add: example_siblings_def finished_with_tokens_def tokens_generated_def)
  have e: "map seq_index (select_best 1 example_siblings) = [1]"
    by (simp add: select_best_def take_map [symmetric] example_ranking)
  from best_of_top_n [OF h1 h2 h3] h1 h2 h3 e show ?thesis by simp
qed

subsection \<open>Allocation and the recovery from \<open>OutOfBlocks\<close>\<close>

lemma allocate_enough:
  "cnt \<le> num_free a \<Longrightarrow> \<exists>ids. fst (allocate cnt a) = Inr ids \<and> length ids = cnt"
  by (simp add: allocate_def num_free_def)

lemma allocate_short: "num_free a < cnt \<Longrightarrow> allocate cnt a = (Inl OutOfBlocks, a)"
  by (simp add: allocate_def)

lemma allocate_cases:
  "(\<exists>ids a'. allocate cnt a = (Inr ids, a') \<and> length ids = cnt) \<or> allocate cnt a = (Inl OutOfBlocks, a)"
  by (simp add: allocate_def num_free_def)

lemma reserve_sink:
  "quiet preempt_one \<Longrightarrow> reserve_decode preempt_one fuel need st = Some (r, st') \<Longrightarrow> sink st' = sink st"
proof (induction fuel arbitrary: st)
  case 0
  then show ?case by simp
next
  case (Suc fuel)
  from allocate_cases [of need "allocator st"] show ?case
  proof
    assume "\<exists>ids a'. allocate need (allocator st) = (Inr ids, a') \<and> length ids = need"
    with Suc.prems(2) show ?thesis by auto
  next
    assume f: "allocate need (allocator st) = (Inl OutOfBlocks, allocator st)"
    show ?thesis
    proof (cases "preempt_one st")
      case None
      with f Suc.prems(2) show ?thesis by auto
    next
      case (Some s1)
      with f Suc.prems(2) have "reserve_decode preempt_one fuel need s1 = Some (r, st')" by simp
      from Suc.IH [OF Suc.prems(1) this] Some Suc.prems(1) show ?thesis
        by (simp add: quiet_def)
    qed
  qed
qed

lemma reserve_returns:
  "evicting preempt_one \<Longrightarrow> length (running st) < fuel \<Longrightarrow> reserve_decode preempt_one fuel need st \<noteq> None"
proof (induction fuel arbitrary: st)
  case 0
  then show ?case by simp
next
  case (Suc fuel)
  from allocate_cases [of need "allocator st"] show ?case
  proof
    assume "\<exists>ids a'. allocate need (allocator st) = (Inr ids, a') \<and> length ids = need"
    then show ?thesis by auto
  next
    assume f: "allocate need (allocator st) = (Inl OutOfBlocks, allocator st)"
    show ?thesis
    proof (cases "preempt_one st")
      case None
      with f show ?thesis by simp
    next
      case (Some s1)
      with Suc.prems have "length (running s1) < fuel" by (fastforce simp add: evicting_def)
      from Suc.IH [OF Suc.prems(1) this] f Some show ?thesis by simp
    qed
  qed
qed

lemma reserve_count:
  "reserve_decode preempt_one fuel need st = Some (Reserved ids, st') \<Longrightarrow> length ids = need"
proof (induction fuel arbitrary: st)
  case 0
  then show ?case by simp
next
  case (Suc fuel)
  from allocate_cases [of need "allocator st"] show ?case
  proof
    assume "\<exists>ids a'. allocate need (allocator st) = (Inr ids, a') \<and> length ids = need"
    with Suc.prems show ?thesis by auto
  next
    assume f: "allocate need (allocator st) = (Inl OutOfBlocks, allocator st)"
    with Suc show ?thesis by (auto split: option.splits)
  qed
qed

lemma reserve_failed:
  "num_free (allocator st) < need \<Longrightarrow>
   reserve_decode preempt_one (Suc fuel) need st =
     (case preempt_one st of
        None \<Rightarrow> Some (StopDecodes, st)
      | Some st' \<Rightarrow> reserve_decode preempt_one fuel need st')"
  by (cases "preempt_one st") (simp_all add: allocate_short)

text \<open>
  C5. \<open>allocate(count)\<close> returns exactly \<open>count\<close> block ids when at least \<open>count\<close> blocks
  are free, and fails with \<open>OutOfBlocks\<close>, leaving the allocator as it was, when fewer
  are free. In the reservation of the decode pass a failed allocation invokes the
  preempt-one hook (and retries when the hook freed blocks, stops otherwise); the
  reservation hands no event to a sink, so the failure is not surfaced; a reservation
  that succeeds holds exactly the blocks needed; and with one attempt more than there
  are running entries the reservation returns.
\<close>

theorem out_of_blocks_recovery:
  "(cnt \<le> num_free a \<longrightarrow> (\<exists>ids. fst (allocate cnt a) = Inr ids \<and> length ids = cnt))
   \<and> (num_free a < cnt \<longrightarrow> allocate cnt a = (Inl OutOfBlocks, a))
   \<and> (num_free (allocator st) < need \<longrightarrow>
        reserve_decode preempt_one (Suc fuel) need st =
          (case preempt_one st of
             None \<Rightarrow> Some (StopDecodes, st)
           | Some st' \<Rightarrow> reserve_decode preempt_one fuel need st'))
   \<and> (quiet preempt_one \<and> reserve_decode preempt_one fuel need st = Some (r, st')
        \<longrightarrow> sink st' = sink st)
   \<and> (reserve_decode preempt_one fuel need st = Some (Reserved ids, st')
        \<longrightarrow> length ids = need)
   \<and> (evicting preempt_one \<and> length (running st) < fuel
        \<longrightarrow> reserve_decode preempt_one fuel need st \<noteq> None)"
  using allocate_enough [of cnt a] allocate_short [of a cnt]
    reserve_failed [of st need preempt_one fuel]
    reserve_sink [of preempt_one fuel need st r st']
    reserve_count [of preempt_one fuel need st ids st']
    reserve_returns [of preempt_one st fuel need]
  by blast

lemma example_hook_quiet: "quiet example_preempt_one"
  by (auto simp add: quiet_def example_preempt_one_def split: list.splits)

lemma example_hook_evicting: "evicting example_preempt_one"
  by (auto simp add: evicting_def example_preempt_one_def split: list.splits)

lemma example_reservation:
  "map_option fst (reserve_decode example_preempt_one (Suc (Suc (Suc 0))) 3 example_core)
     = Some (Reserved [0, 1, 5])"
  by (simp add: example_core_def example_preempt_one_def allocate_def num_free_def)

theorem out_of_blocks_recovery_witness:
  "2 \<le> num_free (allocator example_core)
   \<and> fst (allocate 2 (allocator example_core)) = Inr [5, 4]
   \<and> num_free (allocator example_core) < 3
   \<and> allocate 3 (allocator example_core) = (Inl OutOfBlocks, allocator example_core)
   \<and> quiet example_preempt_one \<and> evicting example_preempt_one
   \<and> length (running example_core) < Suc (Suc (Suc 0))
   \<and> (\<exists>st'. reserve_decode example_preempt_one (Suc (Suc (Suc 0))) 3 example_core
                = Some (Reserved [0, 1, 5], st')
            \<and> sink st' = sink example_core)"
proof -
  have h1: "2 \<le> num_free (allocator example_core)"
    and h2: "num_free (allocator example_core) < 3"
    and h3: "length (running example_core) < Suc (Suc (Suc 0))"
    by (simp_all add: example_core_def num_free_def)
  have a2: "fst (allocate 2 (allocator example_core)) = Inr [5, 4]"
    by (simp add: example_core_def allocate_def num_free_def)
  from out_of_blocks_recovery [where cnt = 3 and a = "allocator example_core"
      and st = example_core and need = 3 and preempt_one = example_preempt_one
      and fuel = "Suc (Suc (Suc 0))"] h2 h3 example_hook_evicting
  have a3: "allocate 3 (allocator example_core) = (Inl OutOfBlocks, allocator example_core)"
    and "reserve_decode example_preempt_one (Suc (Suc (Suc 0))) 3 example_core \<noteq> None"
    by blast+
  then obtain r st' where
    run: "reserve_decode example_preempt_one (Suc (Suc (Suc 0))) 3 example_core = Some (r, st')"
    by auto
  with example_reservation have r: "r = Reserved [0, 1, 5]" by simp
  from out_of_blocks_recovery [where cnt = 3 and a = "allocator example_core"
      and st = example_core and need = 3 and preempt_one = example_preempt_one
      and fuel = "Suc (Suc (Suc 0))" and r = r and st' = st'] example_hook_quiet run
  have "sink st' = sink example_core" by blast
  with h1 h2 h3 a2 a3 example_hook_quiet example_hook_evicting run r show ?thesis
    by blast
qed

end
